theory Spec2Isabelle
  imports Main "HOL-Library.Word"
begin

section \<open>JavaScript values\<close>

text \<open>
  A JavaScript string is a sequence of UTF-16 code units and \<open>.length\<close> counts them, so a
  string is a list of 16-bit words and \<open>length\<close> is \<open>.length\<close>. The ASCII literals of
  \<open>db.js\<close> are written through \<open>js\<close>.
\<close>

type_synonym js_string = "16 word list"

definition js :: "string \<Rightarrow> js_string" where
  "js s = map (\<lambda>c. of_nat (of_char c)) s"

text \<open>
  A schema path of type String holds a string or \<open>undefined\<close> (\<open>None\<close>). In a condition
  both \<open>undefined\<close> and the empty string are falsy; every other string is truthy.
\<close>

fun truthy :: "js_string option \<Rightarrow> bool" where
  "truthy None = False"
| "truthy (Some s) = (s \<noteq> [])"

text \<open>The values that the functions of \<open>db.js\<close> return or store in plain objects.\<close>

datatype jsval =
    Undefined
  | Bool bool
  | Str js_string
  | ObjectId nat
  | Date int
  | Arr "jsval list"
  | Obj "(string \<times> jsval) list"

fun of_string_option :: "js_string option \<Rightarrow> jsval" where
  "of_string_option None = Undefined"
| "of_string_option (Some s) = Str s"

text \<open>
  \<open>String.prototype.trim\<close>, which mongoose applies when a path declared \<open>trim: true\<close>
  is set: the WhiteSpace and LineTerminator code units are removed at both ends.
\<close>

definition is_white_space :: "16 word \<Rightarrow> bool" where
  "is_white_space c =
     (c \<in> {0x9, 0xA, 0xB, 0xC, 0xD, 0x20, 0xA0, 0x1680, 0x2028, 0x2029, 0x202F, 0x205F,
           0x3000, 0xFEFF}
      \<or> (0x2000 \<le> c \<and> c \<le> 0x200A))"

definition trim :: "js_string \<Rightarrow> js_string" where
  "trim s = rev (dropWhile is_white_space (rev (dropWhile is_white_space s)))"

section \<open>The user schema\<close>

text \<open>
  An element of \<open>passports\<close>. The schema declares \<open>type\<close> as a String restricted by an
  enum validator, so the stored value is a string (or missing), compared with \<open>===\<close>.
\<close>

record passport =
  type :: "js_string option"
  password :: "js_string option"
  accessToken :: "js_string option"
  profileId :: "js_string option"

text \<open>
  The user document: \<open>_id\<close> (here \<open>uid\<close>), the declared paths, and the two timestamps of
  \<open>timestamps: true\<close> (\<open>createdAt\<close> and \<open>updatedAt\<close>) in milliseconds.
\<close>

record user =
  uid :: nat
  username :: "js_string option"
  name :: "js_string option"
  passports :: "passport list"
  avatarUrl :: "js_string option"
  user_createdAt :: "int option"
  user_updatedAt :: "int option"

subsection \<open>Field validators\<close>

text \<open>
  Each validator is the truthiness of the value its closure returns.
  \<open>v && v.length > 0 && v.length < 32\<close> is \<open>v\<close> itself when \<open>v\<close> is falsy.
\<close>

definition username_validator :: "js_string option \<Rightarrow> bool" where
  "username_validator v =
     (case v of None \<Rightarrow> False
      | Some s \<Rightarrow> s \<noteq> [] \<and> length s > 0 \<and> length s < 32)"

definition name_validator :: "js_string option \<Rightarrow> bool" where
  "name_validator v =
     (case v of None \<Rightarrow> False
      | Some s \<Rightarrow> s \<noteq> [] \<and> length s > 0 \<and> length s < 64)"

text \<open>\<open>!pwd || (pwd.length > 0 && pwd.length < 64)\<close>\<close>

definition password_validator :: "js_string option \<Rightarrow> bool" where
  "password_validator pwd =
     (\<not> truthy pwd \<or> (case pwd of None \<Rightarrow> False | Some s \<Rightarrow> length s > 0 \<and> length s < 64))"

text \<open>
  \<open>required: [true, ...]\<close> on a String path: mongoose rejects a missing value and the empty
  string.
\<close>

definition required :: "js_string option \<Rightarrow> bool" where
  "required v = (case v of None \<Rightarrow> False | Some s \<Rightarrow> s \<noteq> [])"

text \<open>
  The \<open>username\<close> path: the setter of \<open>trim: true\<close> stores the trimmed string, and
  validation of the path runs the \<open>required\<close> check and the validator on the stored value.
\<close>

definition set_username :: "js_string \<Rightarrow> js_string option" where
  "set_username v = Some (trim v)"

definition validate_username :: "js_string option \<Rightarrow> bool" where
  "validate_username v = (required v \<and> username_validator v)"

subsection \<open>Passport lookup\<close>

text \<open>\<open>this.passports.find(p => p.type === type)\<close>: the first passport of that type.\<close>

definition getPassportByType :: "user \<Rightarrow> js_string \<Rightarrow> passport option" where
  "getPassportByType this t = find (\<lambda>p. type p = Some t) (passports this)"

text \<open>
  \<open>find\<close> returns the array element itself, not a copy: an assignment through the returned
  reference changes the first matching element of \<open>passports\<close> in place.
\<close>

fun update_first :: "('a \<Rightarrow> bool) \<Rightarrow> ('a \<Rightarrow> 'a) \<Rightarrow> 'a list \<Rightarrow> 'a list" where
  "update_first P f [] = []"
| "update_first P f (x # xs) = (if P x then f x # xs else x # update_first P f xs)"

subsection \<open>The bcrypt interface\<close>

text \<open>
  bcrypt is an external library. \<open>bcrypt.hash(data, rounds, cb)\<close> salts at random, so its
  outcome at one call is a parameter of the model: a function from the data and the rounds
  to the error or the digest handed to the callback. \<open>compare\<close> and \<open>compareSync\<close>
  likewise give an error (thrown, for the synchronous one) or a boolean. Every function
  below reports the list of bcrypt calls it made.
\<close>

datatype bcrypt_call =
    Hash js_string nat
  | Compare js_string "js_string option"
  | CompareSync js_string "js_string option"

type_synonym 'e hasher = "js_string \<Rightarrow> nat \<Rightarrow> 'e + js_string"
type_synonym 'e comparer = "js_string \<Rightarrow> js_string option \<Rightarrow> 'e + bool"

subsection \<open>The pre-save hook\<close>

text \<open>
  The errors handed to \<open>next\<close>: a \<open>ValidationError\<close> whose \<open>errors\<close> object has one
  entry, a \<open>ValidatorError(path, message, type, value)\<close>, or the error of bcrypt.
\<close>

datatype error_value = PassportsValue "passport list" | PasswordValue "js_string option"

datatype validator_error = ValidatorError string string string error_value

datatype 'e save_error =
    ValidationError "(string \<times> validator_error) list"
  | BcryptError 'e

text \<open>The two validation errors of the hook, under the names the specification gives them.\<close>

definition MissingLocalPassport :: "passport list \<Rightarrow> 'e save_error" where
  "MissingLocalPassport ps =
     ValidationError [(''passports'',
       ValidatorError ''passports'' ''at least a passport of type \"local\" is required''
         ''notvalid'' (PassportsValue ps))]"

definition MissingPassword :: "js_string option \<Rightarrow> 'e save_error" where
  "MissingPassword pw =
     ValidationError [(''password'',
       ValidatorError ''password'' ''password is required'' ''notvalid'' (PasswordValue pw))]"

text \<open>
  Assignments to the document are plain field updates. The \<open>trim\<close> setter of the
  password path does not change a bcrypt digest, which has no white space.
\<close>

text \<open>
  What a run of the hook leaves behind: the document as mutated in place, the argument of
  \<open>next\<close> (\<open>None\<close> for \<open>next()\<close>), and the bcrypt calls made.
\<close>

record 'e save_result =
  doc :: user
  outcome :: "'e save_error option"
  bcrypt_calls :: "bcrypt_call list"

definition default_name :: "user \<Rightarrow> user" where
  "default_name this = (if \<not> truthy (name this) then this\<lparr>name := username this\<rparr> else this)"

definition beforeSave :: "'e hasher \<Rightarrow> user \<Rightarrow> 'e save_result" where
  "beforeSave bcrypt_hash this0 =
     (let this = default_name this0 in
      case getPassportByType this (js ''local'') of
        None \<Rightarrow>
          \<lparr>doc = this, outcome = Some (MissingLocalPassport (passports this)),
           bcrypt_calls = []\<rparr>
      | Some localPassport \<Rightarrow>
          (case password localPassport of
             None \<Rightarrow>
               \<lparr>doc = this, outcome = Some (MissingPassword None), bcrypt_calls = []\<rparr>
           | Some pw \<Rightarrow>
               if pw = [] then
                 \<lparr>doc = this, outcome = Some (MissingPassword (Some pw)), bcrypt_calls = []\<rparr>
               else
                 (case bcrypt_hash pw 10 of
                    Inl err \<Rightarrow>
                      \<lparr>doc = this, outcome = Some (BcryptError err),
                       bcrypt_calls = [Hash pw 10]\<rparr>
                  | Inr hash \<Rightarrow>
                      \<lparr>doc = this\<lparr>passports :=
                              update_first (\<lambda>p. type p = Some (js ''local''))
                                (\<lambda>p. p\<lparr>password := Some hash\<rparr>) (passports this)\<rparr>,
                       outcome = None,
                       bcrypt_calls = [Hash pw 10]\<rparr>)))"

text \<open>\<open>this.getPassportByType('local').password\<close>, \<open>None\<close> when either is missing.\<close>

definition local_password :: "user \<Rightarrow> js_string option" where
  "local_password this = Option.bind (getPassportByType this (js ''local'')) password"

subsection \<open>Password verification\<close>

text \<open>
  \<open>verifyPassword(password, next)\<close>: the pair of what \<open>next\<close> receives (an error, or the
  boolean) and the bcrypt calls made. The plaintext argument is a string or \<open>undefined\<close>.
\<close>

definition verifyPassword ::
  "'e comparer \<Rightarrow> user \<Rightarrow> js_string option \<Rightarrow> ('e + bool) \<times> bcrypt_call list" where
  "verifyPassword bcrypt_compare this pwd =
     (let localPassport = getPassportByType this (js ''local'') in
      case pwd of
        None \<Rightarrow> (Inr False, [])
      | Some pw \<Rightarrow>
          if pw = [] then (Inr False, [])
          else (case localPassport of
                  None \<Rightarrow> (Inr False, [])
                | Some lp \<Rightarrow>
                    (bcrypt_compare pw (password lp), [Compare pw (password lp)])))"

text \<open>
  \<open>return password && localPassport && bcrypt.compareSync(password, localPassport.password)\<close>:
  \<open>&&\<close> yields its left operand when that is falsy, so the value returned is the plaintext
  argument itself when it is falsy, else the (undefined) result of the lookup when there
  is no local passport, else the boolean of \<open>compareSync\<close> (\<open>Inl\<close> when it throws).
\<close>

definition verifyPasswordSync ::
  "'e comparer \<Rightarrow> user \<Rightarrow> js_string option \<Rightarrow> ('e + jsval) \<times> bcrypt_call list" where
  "verifyPasswordSync bcrypt_compareSync this pwd =
     (let localPassport = getPassportByType this (js ''local'') in
      case pwd of
        None \<Rightarrow> (Inr (of_string_option pwd), [])
      | Some pw \<Rightarrow>
          if pw = [] then (Inr (of_string_option pwd), [])
          else (case localPassport of
                  None \<Rightarrow> (Inr Undefined, [])
                | Some lp \<Rightarrow>
                    (case bcrypt_compareSync pw (password lp) of
                       Inl err \<Rightarrow> (Inl err, [CompareSync pw (password lp)])
                     | Inr b \<Rightarrow> (Inr (Bool b), [CompareSync pw (password lp)]))))"

subsection \<open>The client projection\<close>

text \<open>
  A plain object is the list of its own properties in insertion order, with distinct keys.
  Reading a missing property gives \<open>undefined\<close>; assigning keeps the position of an existing
  key and appends a new one; \<open>delete\<close> removes the key.
\<close>

type_synonym object = "(string \<times> jsval) list"

definition get_prop :: "object \<Rightarrow> string \<Rightarrow> jsval" where
  "get_prop obj k = (case map_of obj k of None \<Rightarrow> Undefined | Some v \<Rightarrow> v)"

fun set_prop :: "object \<Rightarrow> string \<Rightarrow> jsval \<Rightarrow> object" where
  "set_prop [] k v = [(k, v)]"
| "set_prop ((k', v') # obj) k v =
     (if k' = k then (k, v) # obj else (k', v') # set_prop obj k v)"

definition delete_prop :: "object \<Rightarrow> string \<Rightarrow> object" where
  "delete_prop obj k = filter (\<lambda>kv. fst kv \<noteq> k) obj"

definition has_prop :: "object \<Rightarrow> string \<Rightarrow> bool" where
  "has_prop obj k = (k \<in> set (map fst obj))"

text \<open>
  \<open>this.toObject()\<close> is mongoose's: a fresh plain object holding \<open>_id\<close> and every path of
  the document that has a value.
\<close>

definition prop_of :: "string \<Rightarrow> js_string option \<Rightarrow> object" where
  "prop_of k v = (case v of None \<Rightarrow> [] | Some s \<Rightarrow> [(k, Str s)])"

definition date_of :: "string \<Rightarrow> int option \<Rightarrow> object" where
  "date_of k v = (case v of None \<Rightarrow> [] | Some t \<Rightarrow> [(k, Date t)])"

definition passport_toObject :: "passport \<Rightarrow> jsval" where
  "passport_toObject p =
     Obj (prop_of ''type'' (type p) @ prop_of ''password'' (password p)
          @ prop_of ''accessToken'' (accessToken p) @ prop_of ''profileId'' (profileId p))"

definition toObject :: "user \<Rightarrow> object" where
  "toObject this =
     [(''_id'', ObjectId (uid this))]
     @ prop_of ''username'' (username this)
     @ prop_of ''name'' (name this)
     @ [(''passports'', Arr (map passport_toObject (passports this)))]
     @ prop_of ''avatarUrl'' (avatarUrl this)
     @ date_of ''createdAt'' (user_createdAt this)
     @ date_of ''updatedAt'' (user_updatedAt this)"

text \<open>The body of \<open>toClient\<close> after \<open>var obj = this.toObject()\<close>, on any plain object.\<close>

definition toClient_object :: "object \<Rightarrow> object" where
  "toClient_object obj0 =
     (let obj1 = set_prop obj0 ''id'' (get_prop obj0 ''_id'');
          obj2 = delete_prop obj1 ''_id'';
          obj3 = delete_prop obj2 ''passports''
      in obj3)"

definition toClient :: "user \<Rightarrow> object" where
  "toClient this = toClient_object (toObject this)"

section \<open>The message schema\<close>

record geo_info =
  country_name :: "js_string option"
  region_name :: "js_string option"
  city :: "js_string option"
  time_zone :: "js_string option"

record creator_info =
  creator_id :: nat
  creator_name :: "js_string option"
  creator_avatarUrl :: "js_string option"

text \<open>
  The message document. \<open>createdAt\<close> is the timestamp in milliseconds, \<open>None\<close> when the
  document has none (the subtraction is then \<open>NaN\<close>).
\<close>

record message =
  message_id :: nat
  creator :: creator_info
  message_text :: "js_string option"
  geo :: geo_info
  createdAt :: "int option"

subsection \<open>Numbers\<close>

text \<open>
  \<open>Math.round(ms / 1000)\<close> for an integer number of milliseconds: the nearest integer, a
  half rounding towards plus infinity. The quotient of a date difference by 1000 is far
  from the precision limit of a double, so the integer formula is exact.
\<close>

definition round_seconds :: "int \<Rightarrow> int" where
  "round_seconds ms = (ms + 500) div 1000"

text \<open>The decimal digits of a natural number, and Number-to-String on an integer.\<close>

fun digits :: "nat \<Rightarrow> js_string" where
  "digits n = (if n < 10 then [of_nat (48 + n)]
               else digits (n div 10) @ [of_nat (48 + n mod 10)])"

declare digits.simps [simp del]

definition number_toString :: "int \<Rightarrow> js_string" where
  "number_toString i = (if i < 0 then js ''-'' @ digits (nat (- i)) else digits (nat i))"

subsection \<open>Virtual fields\<close>

text \<open>
  \<open>friendlyTimestamp\<close>, with the current time \<open>+new Date()\<close> as the parameter \<open>now\<close>. On
  the non-negative integers that reach them, \<open>Math.floor(delta / k)\<close> is \<open>delta div k\<close>.
  When \<open>createdAt\<close> is missing \<open>delta\<close> is \<open>NaN\<close>: every comparison is false and the last
  branch is taken.
\<close>

definition friendlyTimestamp :: "int \<Rightarrow> message \<Rightarrow> js_string" where
  "friendlyTimestamp now this =
     (case createdAt this of
        None \<Rightarrow> js '' a long time ago''
      | Some t \<Rightarrow>
          (let delta = round_seconds (now - t);
               minute = 60;
               hour = minute * 60;
               day = hour * 24;
               week = day * 7
           in if delta < 30 then js ''just now''
              else if delta < minute then number_toString delta @ js '' seconds ago''
              else if delta < 2 * minute then js ''a minute ago''
              else if delta < hour then number_toString (delta div minute) @ js '' minutes ago''
              else if delta div hour = 1 then js ''1 hour ago''
              else if delta < day then number_toString (delta div hour) @ js '' hours ago''
              else if delta < day * 2 then js ''yesterday''
              else if delta < week then number_toString (delta div day) @ js '' days ago''
              else js '' a long time ago''))"

text \<open>\<open>location\<close>: \<open>None\<close> is \<open>undefined\<close>.\<close>

definition location :: "message \<Rightarrow> js_string option" where
  "location this =
     (let g = geo this in
      if truthy (time_zone g) \<and> (case time_zone g of None \<Rightarrow> False | Some tz \<Rightarrow> length tz > 0)
      then time_zone g
      else (case (country_name g, city g) of
              (Some cn, Some c) \<Rightarrow>
                if cn \<noteq> [] \<and> length cn \<noteq> 0 \<and> c \<noteq> [] \<and> length c \<noteq> 0
                then Some (c @ js ''/'' @ cn)
                else None
            | _ \<Rightarrow> None))"

definition footer :: "int \<Rightarrow> message \<Rightarrow> js_string" where
  "footer now this =
     (let loc = location this;
          timestamp = friendlyTimestamp now this
      in case loc of
           None \<Rightarrow> timestamp
         | Some l \<Rightarrow> if l \<noteq> [] then timestamp @ js '', '' @ l else timestamp)"

section \<open>Example documents\<close>

text \<open>
  Concrete inputs at which the theorems below are instantiated. \<open>toy_hash\<close> and
  \<open>toy_compare\<close> stand in for bcrypt: a digest is the data behind a fixed prefix.
\<close>

definition toy_hash :: "unit hasher" where
  "toy_hash data rounds = Inr (js ''$2b$'' @ data)"

definition toy_compare :: "unit comparer" where
  "toy_compare data digest = Inr (digest = Some (js ''$2b$'' @ data))"

definition local_passport :: "js_string option \<Rightarrow> passport" where
  "local_passport pw =
     \<lparr>type = Some (js ''local''), password = pw, accessToken = None, profileId = None\<rparr>"

definition facebook_passport :: passport where
  "facebook_passport =
     \<lparr>type = Some (js ''facebook''), password = None, accessToken = Some (js ''tok''),
      profileId = Some (js ''42'')\<rparr>"

definition new_user :: "string \<Rightarrow> passport list \<Rightarrow> user" where
  "new_user uname ps =
     \<lparr>uid = 1, username = Some (js uname), name = None, passports = ps,
      avatarUrl = Some (js ''/avatar/default''), user_createdAt = None,
      user_updatedAt = None\<rparr>"

definition alice :: user where
  "alice = new_user ''alice'' [facebook_passport, local_passport (Some (js ''s3cret''))]"

definition bob :: user where
  "bob = new_user ''bob'' [facebook_passport]"

definition carol :: user where
  "carol = new_user ''carol'' [local_passport (Some [])]"

text \<open>A user with two local passports: the first has a password, the last has none.\<close>

definition dave :: user where
  "dave = new_user ''dave''
     [local_passport (Some (js ''first'')), facebook_passport, local_passport (Some [])]"

lemmas example_defs =
  toy_hash_def toy_compare_def local_passport_def facebook_passport_def new_user_def
  alice_def bob_def carol_def

definition message_at :: "int option \<Rightarrow> geo_info \<Rightarrow> message" where
  "message_at t g =
     \<lparr>message_id = 7,
      creator = \<lparr>creator_id = 1, creator_name = Some (js ''guest''), creator_avatarUrl = None\<rparr>,
      message_text = Some (js ''Hello friend !!''), geo = g, createdAt = t\<rparr>"

definition no_geo :: geo_info where
  "no_geo = \<lparr>country_name = None, region_name = None, city = None, time_zone = None\<rparr>"

definition paris_geo :: geo_info where
  "paris_geo = \<lparr>country_name = Some (js ''France''), region_name = None,
                 city = Some (js ''Lyon''), time_zone = Some (js ''Europe/Paris'')\<rparr>"

definition athens_geo :: geo_info where
  "athens_geo = \<lparr>country_name = Some (js ''Greece''), region_name = Some (js ''Attica''),
                  city = Some (js ''Athens''), time_zone = Some []\<rparr>"

definition region_only_geo :: geo_info where
  "region_only_geo = \<lparr>country_name = Some (js ''Greece''), region_name = Some (js ''Attica''),
                  city = None, time_zone = None\<rparr>"

lemmas message_defs = message_at_def no_geo_def paris_geo_def athens_geo_def region_only_geo_def

section \<open>Properties of the pre-save hook\<close>

lemma passports_default_name: "passports (default_name u) = passports u"
  by (simp add: default_name_def)

lemma getPassportByType_default_name:
  "getPassportByType (default_name u) t = getPassportByType u t"
  by (simp add: getPassportByType_def passports_default_name)

lemma getPassportByType_None_iff:
  "getPassportByType u t = None \<longleftrightarrow> (\<forall>p \<in> set (passports u). type p \<noteq> Some t)"
  by (auto simp: getPassportByType_def find_None_iff)

text \<open>
  C3. A user whose \<open>passports\<close> holds no passport of type \<open>local\<close> is rejected by the
  hook with the missing-local-passport error; the password is not looked at and bcrypt is
  not called.
\<close>

theorem beforeSave_no_local_passport:
  assumes "\<forall>p \<in> set (passports u). type p \<noteq> Some (js ''local'')"
  shows "outcome (beforeSave h u) = Some (MissingLocalPassport (passports u))
         \<and> bcrypt_calls (beforeSave h u) = []"
proof -
  from assms have "getPassportByType (default_name u) (js ''local'') = None"
    by (simp add: getPassportByType_default_name getPassportByType_None_iff)
  then show ?thesis
    by (simp add: beforeSave_def passports_default_name)
qed

theorem beforeSave_no_local_passport_witness:
  "map type (passports bob) = [Some (js ''facebook'')]
   \<and> outcome (beforeSave toy_hash bob) = Some (MissingLocalPassport [facebook_passport])
   \<and> bcrypt_calls (beforeSave toy_hash bob) = []"
proof -
  have h: "\<forall>p \<in> set (passports bob). type p \<noteq> Some (js ''local'')"
    by (simp add: example_defs js_def)
  have ps: "passports bob = [facebook_passport]"
    by (simp add: bob_def new_user_def)
  from beforeSave_no_local_passport [OF h, of toy_hash] ps show ?thesis
    by (simp add: facebook_passport_def)
qed

text \<open>
  C4 (as amended). The hook looks at one local passport only, the first of type \<open>local\<close>,
  which is the one \<open>getPassportByType\<close> finds. When that passport has an empty password
  field, \<open>undefined\<close> or the empty string, the hook rejects the save with the
  missing-password error, and bcrypt is not called.
\<close>

theorem beforeSave_empty_password:
  assumes "getPassportByType u (js ''local'') = Some p" and "\<not> truthy (password p)"
  shows "outcome (beforeSave h u) = Some (MissingPassword (password p))
         \<and> bcrypt_calls (beforeSave h u) = []"
proof (cases "password p")
  case None
  with assms(1) show ?thesis
    by (simp add: beforeSave_def getPassportByType_default_name)
next
  case (Some pw)
  with assms(2) have "pw = []" by simp
  with Some assms(1) show ?thesis
    by (simp add: beforeSave_def getPassportByType_default_name)
qed

theorem beforeSave_empty_password_witness:
  "getPassportByType carol (js ''local'') = Some (local_passport (Some []))
   \<and> \<not> truthy (password (local_passport (Some [])))
   \<and> outcome (beforeSave toy_hash carol) = Some (MissingPassword (Some []))
   \<and> bcrypt_calls (beforeSave toy_hash carol) = []"
proof -
  have a: "getPassportByType carol (js ''local'') = Some (local_passport (Some []))"
    by (simp add: getPassportByType_def example_defs)
  have b: "\<not> truthy (password (local_passport (Some [])))"
    by (simp add: example_defs)
  from beforeSave_empty_password [OF a b, of toy_hash] a b show ?thesis
    by (simp add: local_passport_def)
qed

text \<open>
  C4 as stated, for every user that has some local passport with an empty password, fails:
  \<open>dave\<close> has a local passport whose password is empty, but it is not the first one of
  that type. The hook hashes the password of the first and the save succeeds.
\<close>

theorem beforeSave_empty_password_counterexample:
  "local_passport (Some []) \<in> set (passports dave)
   \<and> type (local_passport (Some [])) = Some (js ''local'')
   \<and> \<not> truthy (password (local_passport (Some [])))
   \<and> outcome (beforeSave toy_hash dave) = None
   \<and> bcrypt_calls (beforeSave toy_hash dave) = [Hash (js ''first'') 10]"
  by (simp add: beforeSave_def Let_def default_name_def getPassportByType_def dave_def
      example_defs js_def)

subsection \<open>Saving twice\<close>

lemma find_update_first:
  "find P xs = Some x \<Longrightarrow> P (f x) \<Longrightarrow> find P (update_first P f xs) = Some (f x)"
  by (induction xs) (auto split: if_splits)

lemma beforeSave_success:
  assumes "outcome (beforeSave h u) = None"
  obtains lp pw d where
    "getPassportByType u (js ''local'') = Some lp" "password lp = Some pw" "pw \<noteq> []"
    "h pw 10 = Inr d"
    "doc (beforeSave h u) =
       (default_name u)\<lparr>passports := update_first (\<lambda>p. type p = Some (js ''local''))
                                     (\<lambda>p. p\<lparr>password := Some d\<rparr>) (passports u)\<rparr>"
    "bcrypt_calls (beforeSave h u) = [Hash pw 10]"
proof -
  from assms obtain lp where lp: "getPassportByType u (js ''local'') = Some lp"
    by (cases "getPassportByType u (js ''local'')")
      (simp_all add: beforeSave_def Let_def getPassportByType_default_name)
  with assms obtain pw where pw: "password lp = Some pw"
    by (cases "password lp")
      (simp_all add: beforeSave_def Let_def getPassportByType_default_name)
  with assms lp have ne: "pw \<noteq> []"
    by (auto simp: beforeSave_def Let_def getPassportByType_default_name)
  with assms lp pw obtain d where d: "h pw 10 = Inr d"
    by (cases "h pw 10")
      (simp_all add: beforeSave_def Let_def getPassportByType_default_name)
  from lp pw ne d have
    "doc (beforeSave h u) =
       (default_name u)\<lparr>passports := update_first (\<lambda>p. type p = Some (js ''local''))
                                     (\<lambda>p. p\<lparr>password := Some d\<rparr>) (passports u)\<rparr>"
    "bcrypt_calls (beforeSave h u) = [Hash pw 10]"
    by (simp_all add: beforeSave_def Let_def getPassportByType_default_name
        passports_default_name)
  with lp pw ne d show thesis
    by (rule that)
qed

lemma local_password_after_save:
  assumes "getPassportByType u (js ''local'') = Some lp"
  shows "local_password
           ((default_name u)\<lparr>passports := update_first (\<lambda>p. type p = Some (js ''local''))
                                     (\<lambda>p. p\<lparr>password := Some d\<rparr>) (passports u)\<rparr>) = Some d"
proof -
  from assms have f: "find (\<lambda>p. type p = Some (js ''local'')) (passports u) = Some lp"
    by (simp add: getPassportByType_def)
  then have "type lp = Some (js ''local'')"
    by (auto simp: find_Some_iff)
  with f have "find (\<lambda>p. type p = Some (js ''local''))
                 (update_first (\<lambda>p. type p = Some (js ''local''))
                    (\<lambda>p. p\<lparr>password := Some d\<rparr>) (passports u))
               = Some (lp\<lparr>password := Some d\<rparr>)"
    by (intro find_update_first) simp_all
  then show ?thesis
    by (simp add: local_password_def getPassportByType_def)
qed

text \<open>
  C1 (as amended). The hook has no record of a password being already hashed: every
  successful run hashes whatever the local passport's password field holds. Across two
  consecutive successful saves with the field untouched in between, bcrypt is called once
  in each, the second time on the digest the first one stored, and the stored value
  becomes the digest of that digest.
\<close>

theorem beforeSave_twice_rehashes:
  assumes "outcome (beforeSave h1 u) = None"
    and "outcome (beforeSave h2 (doc (beforeSave h1 u))) = None"
  shows "\<exists>pw d1 d2.
           local_password u = Some pw \<and> h1 pw 10 = Inr d1 \<and> h2 d1 10 = Inr d2
           \<and> bcrypt_calls (beforeSave h1 u) = [Hash pw 10]
           \<and> local_password (doc (beforeSave h1 u)) = Some d1
           \<and> bcrypt_calls (beforeSave h2 (doc (beforeSave h1 u))) = [Hash d1 10]
           \<and> local_password (doc (beforeSave h2 (doc (beforeSave h1 u)))) = Some d2"
proof -
  let ?u1 = "doc (beforeSave h1 u)"
  from assms(1) obtain lp pw d1 where
    1: "getPassportByType u (js ''local'') = Some lp" "password lp = Some pw"
      "h1 pw 10 = Inr d1"
      "?u1 = (default_name u)\<lparr>passports := update_first (\<lambda>p. type p = Some (js ''local''))
                                     (\<lambda>p. p\<lparr>password := Some d1\<rparr>) (passports u)\<rparr>"
      "bcrypt_calls (beforeSave h1 u) = [Hash pw 10]"
    by (rule beforeSave_success)
  from 1(1,4) have p1: "local_password ?u1 = Some d1"
    by (simp add: local_password_after_save)
  from assms(2) obtain lp' pw' d2 where
    2: "getPassportByType ?u1 (js ''local'') = Some lp'" "password lp' = Some pw'"
      "h2 pw' 10 = Inr d2"
      "doc (beforeSave h2 ?u1) =
         (default_name ?u1)\<lparr>passports := update_first (\<lambda>p. type p = Some (js ''local''))
                                     (\<lambda>p. p\<lparr>password := Some d2\<rparr>) (passports ?u1)\<rparr>"
      "bcrypt_calls (beforeSave h2 ?u1) = [Hash pw' 10]"
    by (rule beforeSave_success)
  from 2(1,2) p1 have "pw' = d1"
    by (simp add: local_password_def)
  from 2(1,4) have p2: "local_password (doc (beforeSave h2 ?u1)) = Some d2"
    by (simp add: local_password_after_save)
  from 1(1,2) have p0: "local_password u = Some pw"
    by (simp add: local_password_def)
  from p0 p1 p2 1(3,5) 2(3,5) \<open>pw' = d1\<close> show ?thesis
    by blast
qed

lemma alice_first:
  "beforeSave toy_hash alice =
     \<lparr>doc = alice\<lparr>name := Some (js ''alice''),
                  passports := [facebook_passport, local_passport (Some (js ''$2b$s3cret''))]\<rparr>,
      outcome = None, bcrypt_calls = [Hash (js ''s3cret'') 10]\<rparr>"
  by (simp add: beforeSave_def Let_def default_name_def getPassportByType_def example_defs js_def)

lemma alice_second:
  "beforeSave toy_hash (doc (beforeSave toy_hash alice)) =
     \<lparr>doc = alice\<lparr>name := Some (js ''alice''),
                  passports := [facebook_passport, local_passport (Some (js ''$2b$$2b$s3cret''))]\<rparr>,
      outcome = None, bcrypt_calls = [Hash (js ''$2b$s3cret'') 10]\<rparr>"
  unfolding alice_first
  by (simp add: beforeSave_def Let_def default_name_def getPassportByType_def example_defs js_def)

text \<open>
  C1 as stated (the second save leaves the digest alone and the password is hashed once)
  fails: saving \<open>alice\<close> twice calls the hasher twice and the second save replaces the
  stored digest.
\<close>

theorem beforeSave_twice_counterexample:
  "outcome (beforeSave toy_hash alice) = None
   \<and> outcome (beforeSave toy_hash (doc (beforeSave toy_hash alice))) = None
   \<and> local_password (doc (beforeSave toy_hash alice)) = Some (js ''$2b$s3cret'')
   \<and> local_password (doc (beforeSave toy_hash (doc (beforeSave toy_hash alice))))
       = Some (js ''$2b$$2b$s3cret'')
   \<and> js ''$2b$$2b$s3cret'' \<noteq> js ''$2b$s3cret''
   \<and> bcrypt_calls (beforeSave toy_hash alice)
       @ bcrypt_calls (beforeSave toy_hash (doc (beforeSave toy_hash alice)))
       = [Hash (js ''s3cret'') 10, Hash (js ''$2b$s3cret'') 10]"
  unfolding alice_second unfolding alice_first
  by (simp add: local_password_def getPassportByType_def example_defs js_def)

theorem beforeSave_twice_rehashes_witness:
  "outcome (beforeSave toy_hash alice) = None
   \<and> outcome (beforeSave toy_hash (doc (beforeSave toy_hash alice))) = None
   \<and> (\<exists>pw d1 d2.
           local_password alice = Some pw \<and> toy_hash pw 10 = Inr d1 \<and> toy_hash d1 10 = Inr d2
           \<and> bcrypt_calls (beforeSave toy_hash alice) = [Hash pw 10]
           \<and> local_password (doc (beforeSave toy_hash alice)) = Some d1
           \<and> bcrypt_calls (beforeSave toy_hash (doc (beforeSave toy_hash alice))) = [Hash d1 10]
           \<and> local_password (doc (beforeSave toy_hash (doc (beforeSave toy_hash alice)))) = Some d2)"
proof -
  have a: "outcome (beforeSave toy_hash alice) = None"
    by (simp add: alice_first)
  have b: "outcome (beforeSave toy_hash (doc (beforeSave toy_hash alice))) = None"
    by (simp add: alice_second)
  from beforeSave_twice_rehashes [OF a b] a b show ?thesis
    by blast
qed

subsection \<open>The default name\<close>

lemma name_doc_beforeSave: "name (doc (beforeSave h u)) = name (default_name u)"
  by (simp add: beforeSave_def Let_def split: option.splits sum.splits)

lemma doc_beforeSave_rejected:
  "outcome (beforeSave h u) \<noteq> None \<Longrightarrow> doc (beforeSave h u) = default_name u"
  by (simp add: beforeSave_def Let_def split: option.splits sum.splits if_splits)

text \<open>
  C7. When \<open>name\<close> is empty at save time (\<open>undefined\<close> or the empty string) the hook
  sets it to \<open>username\<close>, whatever happens afterwards; and when the hook then succeeds
  for a user whose username passed its field validation, the name it leaves is non-empty
  and is the username.
\<close>

theorem beforeSave_default_name:
  assumes "\<not> truthy (name u)"
  shows "name (doc (beforeSave h u)) = username u
         \<and> (outcome (beforeSave h u) = None \<and> validate_username (username u)
              \<longrightarrow> truthy (name (doc (beforeSave h u))))"
proof -
  from assms have n: "name (doc (beforeSave h u)) = username u"
    by (simp add: name_doc_beforeSave default_name_def)
  have "truthy (username u)" if "validate_username (username u)"
    using that by (cases "username u") (simp_all add: validate_username_def required_def)
  with n show ?thesis by simp
qed

theorem beforeSave_default_name_witness:
  "\<not> truthy (name alice) \<and> outcome (beforeSave toy_hash alice) = None
   \<and> validate_username (username alice)
   \<and> name (doc (beforeSave toy_hash alice)) = Some (js ''alice'')
   \<and> truthy (name (doc (beforeSave toy_hash alice)))"
proof -
  have a: "\<not> truthy (name alice)"
    by (simp add: alice_def new_user_def)
  have b: "validate_username (username alice)"
    by (simp add: alice_def new_user_def validate_username_def required_def
        username_validator_def js_def)
  have c: "outcome (beforeSave toy_hash alice) = None"
    by (simp add: alice_first)
  have d: "username alice = Some (js ''alice'')"
    by (simp add: alice_def new_user_def)
  from beforeSave_default_name [OF a, of toy_hash] a b c d show ?thesis
    by (simp add: js_def)
qed

text \<open>
  C10. The hook is not atomic. For a user with an empty name, a run that ends in the
  missing-local-passport or the missing-password error still leaves the document with
  \<open>name\<close> set to \<open>username\<close>, and with nothing else changed.
\<close>

theorem beforeSave_rejected_keeps_default_name:
  assumes "\<not> truthy (name u)"
    and "outcome (beforeSave h u) = Some (MissingLocalPassport ps)
         \<or> outcome (beforeSave h u) = Some (MissingPassword pw)"
  shows "doc (beforeSave h u) = u\<lparr>name := username u\<rparr>
         \<and> name (doc (beforeSave h u)) = username u"
proof -
  from assms(2) have "outcome (beforeSave h u) \<noteq> None" by auto
  then have "doc (beforeSave h u) = default_name u"
    by (rule doc_beforeSave_rejected)
  with assms(1) show ?thesis
    by (simp add: default_name_def)
qed

theorem beforeSave_rejected_keeps_default_name_witness:
  "name bob = None
   \<and> outcome (beforeSave toy_hash bob) = Some (MissingLocalPassport [facebook_passport])
   \<and> name (doc (beforeSave toy_hash bob)) = Some (js ''bob'')
   \<and> name carol = None
   \<and> outcome (beforeSave toy_hash carol) = Some (MissingPassword (Some []))
   \<and> name (doc (beforeSave toy_hash carol)) = Some (js ''carol'')"
proof -
  have b1: "\<not> truthy (name bob)" and b2: "name bob = None"
    and b3: "username bob = Some (js ''bob'')"
    by (simp_all add: bob_def new_user_def)
  have b4: "outcome (beforeSave toy_hash bob) = Some (MissingLocalPassport [facebook_passport])"
    by (simp add: beforeSave_def Let_def default_name_def getPassportByType_def example_defs js_def)
  have c1: "\<not> truthy (name carol)" and c2: "name carol = None"
    and c3: "username carol = Some (js ''carol'')"
    by (simp_all add: carol_def new_user_def)
  have c4: "outcome (beforeSave toy_hash carol) = Some (MissingPassword (Some []))"
    by (simp add: beforeSave_def Let_def default_name_def getPassportByType_def example_defs js_def)
  from beforeSave_rejected_keeps_default_name [OF b1 disjI1 [OF b4]]
  have "name (doc (beforeSave toy_hash bob)) = username bob" by simp
  moreover from beforeSave_rejected_keeps_default_name [OF c1 disjI2 [OF c4]]
  have "name (doc (beforeSave toy_hash carol)) = username carol" by simp
  ultimately show ?thesis
    using b2 b3 b4 c2 c3 c4 by simp
qed

section \<open>Properties of the client projection\<close>

lemma keys_set_prop:
  "map fst (set_prop obj k v) =
     (if k \<in> set (map fst obj) then map fst obj else map fst obj @ [k])"
  by (induction obj k v rule: set_prop.induct) auto

lemma has_prop_set_prop: "has_prop (set_prop obj k v) k' \<longleftrightarrow> k' = k \<or> has_prop obj k'"
  unfolding has_prop_def keys_set_prop by auto

lemma map_of_set_prop: "map_of (set_prop obj k v) = (map_of obj)(k \<mapsto> v)"
  by (induction obj) (auto simp: fun_eq_iff)

lemma has_prop_delete_prop: "has_prop (delete_prop obj k) k' \<longleftrightarrow> k' \<noteq> k \<and> has_prop obj k'"
  by (induction obj) (auto simp: has_prop_def delete_prop_def)

lemma map_of_delete_prop: "map_of (delete_prop obj k) k' = (if k' = k then None else map_of obj k')"
  by (induction obj) (auto simp: delete_prop_def)

lemma get_prop_delete_prop: "k' \<noteq> k \<Longrightarrow> get_prop (delete_prop obj k) k' = get_prop obj k'"
  by (simp add: get_prop_def map_of_delete_prop)

lemma get_prop_set_prop: "get_prop (set_prop obj k v) k' = (if k' = k then v else get_prop obj k')"
  by (simp add: get_prop_def map_of_set_prop)

lemma toClient_object_props:
  "has_prop (toClient_object obj) ''id''"
  "get_prop (toClient_object obj) ''id'' = get_prop obj ''_id''"
  "\<not> has_prop (toClient_object obj) ''passports''"
  "\<not> has_prop (toClient_object obj) ''_id''"
  by (simp_all add: toClient_object_def Let_def has_prop_delete_prop has_prop_set_prop
      get_prop_delete_prop get_prop_set_prop)

lemma get_prop_toObject_id: "get_prop (toObject this) ''_id'' = ObjectId (uid this)"
  by (simp add: get_prop_def toObject_def)

text \<open>
  C2. The client projection of a user is a plain object that has the key \<open>id\<close>, holding
  the document's \<open>_id\<close>, and has no key \<open>passports\<close>. \<open>toClient\<close> is a total function of
  the document: it works on the copy made by \<open>toObject\<close> and has no failing branch.
\<close>

theorem toClient_id_without_passports:
  "has_prop (toClient this) ''id''
   \<and> get_prop (toClient this) ''id'' = ObjectId (uid this)
   \<and> \<not> has_prop (toClient this) ''passports''"
  by (simp add: toClient_def toClient_object_props get_prop_toObject_id)

section \<open>Properties of password verification\<close>

lemma verifyPassword_false:
  "\<not> truthy pwd \<or> getPassportByType u (js ''local'') = None
   \<Longrightarrow> verifyPassword cmp u pwd = (Inr False, [])"
  by (auto simp: verifyPassword_def Let_def split: option.splits)

lemma verifyPassword_delegates:
  "pw \<noteq> [] \<Longrightarrow> getPassportByType u (js ''local'') = Some lp
   \<Longrightarrow> verifyPassword cmp u (Some pw) = (cmp pw (password lp), [Compare pw (password lp)])"
  by (simp add: verifyPassword_def)

lemma verifyPasswordSync_falsy:
  "\<not> truthy pwd \<Longrightarrow> verifyPasswordSync cmp u pwd = (Inr (of_string_option pwd), [])"
  "truthy pwd \<Longrightarrow> getPassportByType u (js ''local'') = None
   \<Longrightarrow> verifyPasswordSync cmp u pwd = (Inr Undefined, [])"
  by (auto simp: verifyPasswordSync_def Let_def split: option.splits)

lemma verifyPasswordSync_delegates:
  "pw \<noteq> [] \<Longrightarrow> getPassportByType u (js ''local'') = Some lp
   \<Longrightarrow> verifyPasswordSync cmp u (Some pw) =
       (case cmp pw (password lp) of Inl e \<Rightarrow> Inl e | Inr b \<Rightarrow> Inr (Bool b),
        [CompareSync pw (password lp)])"
  by (simp add: verifyPasswordSync_def split: sum.splits)

text \<open>
  C5 fails for the synchronous variant. With an empty plaintext or without a local passport
  neither variant calls bcrypt, and \<open>verifyPassword\<close> hands \<open>false\<close> to its callback; but
  \<open>verifyPasswordSync\<close> returns the falsy operand of its \<open>&&\<close> chain, the empty string or
  \<open>undefined\<close>, not the boolean \<open>false\<close>.
\<close>

theorem verifyPasswordSync_not_boolean:
  "verifyPasswordSync toy_compare alice (Some []) = (Inr (Str []), [])
   \<and> verifyPasswordSync toy_compare alice None = (Inr Undefined, [])
   \<and> verifyPasswordSync toy_compare bob (Some (js ''s3cret'')) = (Inr Undefined, [])
   \<and> Str [] \<noteq> Bool False \<and> Undefined \<noteq> Bool False
   \<and> verifyPassword toy_compare alice (Some []) = (Inr False, [])
   \<and> verifyPassword toy_compare bob (Some (js ''s3cret'')) = (Inr False, [])"
  by (simp add: verifyPasswordSync_def verifyPassword_def getPassportByType_def example_defs js_def)

section \<open>Properties of the username validator\<close>

text \<open>
  C6. A username string, stored trimmed, passes the field validation exactly when the
  trimmed string has between 1 and 31 code units: it fails at length 0 and at length 32 or
  more.
\<close>

theorem username_validation:
  "validate_username (set_username s) \<longleftrightarrow> 1 \<le> length (trim s) \<and> length (trim s) \<le> 31"
  by (auto simp: validate_username_def set_username_def required_def username_validator_def
      Suc_le_eq)

lemma trim_example: "trim (js ''  alice '') = js ''alice''"
  by (simp add: trim_def js_def is_white_space_def)

theorem username_validation_witness:
  "validate_username (set_username (js ''  alice ''))
   \<and> \<not> validate_username (set_username (js ''   ''))
   \<and> \<not> validate_username (set_username (js ''abcdefghijklmnopqrstuvwxyz012345''))
   \<and> validate_username (set_username (js ''abcdefghijklmnopqrstuvwxyz01234''))"
  using username_validation [of "js ''  alice ''"] username_validation [of "js ''   ''"]
    username_validation [of "js ''abcdefghijklmnopqrstuvwxyz012345''"]
    username_validation [of "js ''abcdefghijklmnopqrstuvwxyz01234''"]
  by (simp add: trim_def js_def is_white_space_def)

section \<open>Properties of the message virtuals\<close>

subsection \<open>Location\<close>

text \<open>
  C8. The location of a message is \<open>geo.time_zone\<close> whenever that is non-empty; otherwise
  it is the city and the country joined by a slash when both are non-empty; otherwise it
  is \<open>undefined\<close>. \<open>region_name\<close> plays no part.
\<close>

theorem location_spec:
  "(truthy (time_zone (geo m)) \<longrightarrow> location m = time_zone (geo m))
   \<and> (\<not> truthy (time_zone (geo m)) \<and> truthy (city (geo m)) \<and> truthy (country_name (geo m))
        \<longrightarrow> (\<exists>c cn. city (geo m) = Some c \<and> country_name (geo m) = Some cn
                     \<and> location m = Some (c @ js ''/'' @ cn)))
   \<and> (\<not> truthy (time_zone (geo m))
        \<and> \<not> (truthy (city (geo m)) \<and> truthy (country_name (geo m)))
        \<longrightarrow> location m = None)
   \<and> location (m\<lparr>geo := (geo m)\<lparr>region_name := r\<rparr>\<rparr>) = location m"
  by (cases "time_zone (geo m)"; cases "city (geo m)"; cases "country_name (geo m)")
     (auto simp: location_def Let_def)

theorem location_spec_witness:
  "location (message_at (Some 0) paris_geo) = Some (js ''Europe/Paris'')
   \<and> location (message_at (Some 0) athens_geo) = Some (js ''Athens/Greece'')
   \<and> location (message_at (Some 0) region_only_geo) = None"
proof -
  have 1: "truthy (time_zone (geo (message_at (Some 0) paris_geo)))"
    by (simp add: message_defs js_def)
  have 2: "\<not> truthy (time_zone (geo (message_at (Some 0) athens_geo)))
           \<and> truthy (city (geo (message_at (Some 0) athens_geo)))
           \<and> truthy (country_name (geo (message_at (Some 0) athens_geo)))"
    by (simp add: message_defs js_def)
  have 3: "\<not> truthy (time_zone (geo (message_at (Some 0) region_only_geo)))
           \<and> \<not> (truthy (city (geo (message_at (Some 0) region_only_geo)))
                \<and> truthy (country_name (geo (message_at (Some 0) region_only_geo))))"
    by (simp add: message_defs js_def)
  from location_spec [of "message_at (Some 0) paris_geo"] 1
  have a: "location (message_at (Some 0) paris_geo) = Some (js ''Europe/Paris'')"
    by (simp add: message_defs)
  from location_spec [of "message_at (Some 0) athens_geo"] 2
  have b: "location (message_at (Some 0) athens_geo) = Some (js ''Athens/Greece'')"
    by (auto simp: message_defs js_def)
  from location_spec [of "message_at (Some 0) region_only_geo"] 3
  have c: "location (message_at (Some 0) region_only_geo) = None"
    by simp
  from a b c show ?thesis by simp
qed

subsection \<open>Relative age\<close>

lemma friendlyTimestamp_unfold:
  assumes "createdAt m = Some t"
  shows "friendlyTimestamp now m =
     (if round_seconds (now - t) < 30 then js ''just now''
      else if round_seconds (now - t) < 60 then number_toString (round_seconds (now - t)) @ js '' seconds ago''
      else if round_seconds (now - t) < 120 then js ''a minute ago''
      else if round_seconds (now - t) < 3600 then number_toString (round_seconds (now - t) div 60) @ js '' minutes ago''
      else if round_seconds (now - t) div 3600 = 1 then js ''1 hour ago''
      else if round_seconds (now - t) < 86400 then number_toString (round_seconds (now - t) div 3600) @ js '' hours ago''
      else if round_seconds (now - t) < 172800 then js ''yesterday''
      else if round_seconds (now - t) < 604800 then number_toString (round_seconds (now - t) div 86400) @ js '' days ago''
      else js '' a long time ago'')"
  unfolding friendlyTimestamp_def Let_def assms option.case
  by (simp only: numeral_times_numeral arith_simps)


lemma one_hour_bucket: "(delta :: int) div 3600 = 1 \<longleftrightarrow> 3600 \<le> delta \<and> delta < 7200"
  by linarith

lemma bucket_just_now:
  assumes "createdAt m = Some t" and "round_seconds (now - t) < 30"
  shows "friendlyTimestamp now m = js ''just now''"
  using assms(2) by (simp add: friendlyTimestamp_unfold [OF assms(1)])

lemma bucket_seconds:
  assumes "createdAt m = Some t" and "30 \<le> round_seconds (now - t)" and "round_seconds (now - t) < 60"
  shows "friendlyTimestamp now m = number_toString (round_seconds (now - t)) @ js '' seconds ago''"
  using assms(2,3) by (simp add: friendlyTimestamp_unfold [OF assms(1)])

lemma bucket_minute:
  assumes "createdAt m = Some t" and "60 \<le> round_seconds (now - t)" and "round_seconds (now - t) < 120"
  shows "friendlyTimestamp now m = js ''a minute ago''"
  using assms(2,3) by (simp add: friendlyTimestamp_unfold [OF assms(1)])


lemma bucket_minutes:
  assumes "createdAt m = Some t" and "120 \<le> round_seconds (now - t)" and "round_seconds (now - t) < 3600"
  shows "friendlyTimestamp now m = number_toString (round_seconds (now - t) div 60) @ js '' minutes ago''"
  using assms(2,3) by (simp add: friendlyTimestamp_unfold [OF assms(1)])

lemma bucket_hour:
  assumes "createdAt m = Some t" and "3600 \<le> round_seconds (now - t)" and "round_seconds (now - t) < 7200"
  shows "friendlyTimestamp now m = js ''1 hour ago''"
  using assms(2,3) by (simp add: friendlyTimestamp_unfold [OF assms(1)] one_hour_bucket)

lemma bucket_hours:
  assumes "createdAt m = Some t" and "7200 \<le> round_seconds (now - t)" and "round_seconds (now - t) < 86400"
  shows "friendlyTimestamp now m = number_toString (round_seconds (now - t) div 3600) @ js '' hours ago''"
  using assms(2,3) by (simp add: friendlyTimestamp_unfold [OF assms(1)] one_hour_bucket)

lemma bucket_yesterday:
  assumes "createdAt m = Some t" and "86400 \<le> round_seconds (now - t)" and "round_seconds (now - t) < 172800"
  shows "friendlyTimestamp now m = js ''yesterday''"
  using assms(2,3) by (simp add: friendlyTimestamp_unfold [OF assms(1)] one_hour_bucket)

lemma bucket_days:
  assumes "createdAt m = Some t" and "172800 \<le> round_seconds (now - t)" and "round_seconds (now - t) < 604800"
  shows "friendlyTimestamp now m = number_toString (round_seconds (now - t) div 86400) @ js '' days ago''"
  using assms(2,3) by (simp add: friendlyTimestamp_unfold [OF assms(1)] one_hour_bucket)

lemma bucket_long_ago:
  assumes "createdAt m = Some t" and "604800 \<le> round_seconds (now - t)"
  shows "friendlyTimestamp now m = js '' a long time ago''"
  using assms(2) by (simp add: friendlyTimestamp_unfold [OF assms(1)] one_hour_bucket)

lemma no_createdAt:
  "createdAt m = None \<Longrightarrow> friendlyTimestamp now m = js '' a long time ago''"
  by (simp add: friendlyTimestamp_def)

lemma footer_example:
  "footer 45000 (message_at (Some 0) no_geo) = js ''45 seconds ago''"
  by (simp add: footer_def location_def Let_def no_geo_def message_at_def friendlyTimestamp_def
      round_seconds_def number_toString_def digits.simps js_def)

text \<open>
  C9 fails in its last bucket. Up to one week the string is the one of the table (the
  lemmas above, with \<open>delta\<close> the difference rounded to whole seconds); from one week on
  the literal returned starts with a space, so the string is not \<open>a long time ago\<close>.
\<close>

theorem friendlyTimestamp_long_ago:
  "friendlyTimestamp 604800000 (message_at (Some 0) no_geo) = js '' a long time ago''
   \<and> js '' a long time ago'' \<noteq> js ''a long time ago''"
  by (simp add: friendlyTimestamp_def round_seconds_def message_at_def js_def)

lemma friendlyTimestamp_examples:
  "friendlyTimestamp 45000 (message_at (Some 0) no_geo) = js ''45 seconds ago''"
  "friendlyTimestamp 29500 (message_at (Some 0) no_geo) = js ''30 seconds ago''"
  "friendlyTimestamp 29499 (message_at (Some 0) no_geo) = js ''just now''"
  "friendlyTimestamp 3599000 (message_at (Some 0) no_geo) = js ''59 minutes ago''"
  "friendlyTimestamp 7199000 (message_at (Some 0) no_geo) = js ''1 hour ago''"
  "friendlyTimestamp 86399000 (message_at (Some 0) no_geo) = js ''23 hours ago''"
  "friendlyTimestamp 172799000 (message_at (Some 0) no_geo) = js ''yesterday''"
  "friendlyTimestamp 604799000 (message_at (Some 0) no_geo) = js ''6 days ago''"
  "friendlyTimestamp 0 (message_at None no_geo) = js '' a long time ago''"
  by (simp_all add: friendlyTimestamp_def round_seconds_def message_at_def number_toString_def
      digits.simps js_def)

end
